theory Spec2Isabelle
  imports Complex_Main
begin

section \<open>Indicar Landsat geoprocessing: data model\<close>

text \<open>
  The development follows \<^verbatim>\<open>indicar/process.py\<close>. Raster samples and georeferencing
  coefficients are Python floats in the source; they are modelled as real numbers, so
  rounding, infinities and NaN are outside the model. Paths are strings.
\<close>

datatype error = AttributeError | IndexError | TypeError

definition ebind :: "error + 'a \<Rightarrow> ('a \<Rightarrow> error + 'b) \<Rightarrow> error + 'b" where
  "ebind m f = (case m of Inl e \<Rightarrow> Inl e | Inr x \<Rightarrow> f x)"

text \<open>
  A GDAL dataset with one band: its size, the six geotransform coefficients
  \<open>gt[0] .. gt[5]\<close>, the projection string and the samples of band 1, addressed by
  line and column.
\<close>

record dataset =
  RasterXSize :: nat
  RasterYSize :: nat
  GeoTransform :: "real \<times> real \<times> real \<times> real \<times> real \<times> real"
  Projection :: string
  samples :: "nat \<Rightarrow> nat \<Rightarrow> real"

datatype fs_entry = Raster dataset | Other

text \<open>The file system and the standard output the methods act on.\<close>

record world =
  files :: "string \<rightharpoonup> fs_entry"
  stdout :: "string list"

definition isfile :: "world \<Rightarrow> string \<Rightarrow> bool" where
  "isfile s p = (files s p \<noteq> None)"

text \<open>\<^verbatim>\<open>gdal.Open(path, GA_ReadOnly)\<close> yields \<^verbatim>\<open>None\<close> for a path that is not a
  readable raster.\<close>

definition gdal_Open :: "world \<Rightarrow> string \<Rightarrow> dataset option" where
  "gdal_Open s p = (case files s p of Some (Raster ds) \<Rightarrow> Some ds | _ \<Rightarrow> None)"

definition print :: "string \<Rightarrow> world \<Rightarrow> world" where
  "print msg s = s\<lparr>stdout := stdout s @ [msg]\<rparr>"

text \<open>\<^verbatim>\<open>os.path.join\<close> of two components (posixpath).\<close>

definition os_path_join :: "string \<Rightarrow> string \<Rightarrow> string" where
  "os_path_join a b =
     (if take 1 b = ''/'' then b
      else if a = [] \<or> drop (length a - 1) a = ''/'' then a @ b
      else a @ ''/'' @ b)"

section \<open>Bounds\<close>

text \<open>\<^verbatim>\<open>get_image_bounds\<close>: attribute access on a dataset that failed to open raises
  \<^verbatim>\<open>AttributeError\<close>.\<close>

definition get_image_bounds ::
  "world \<Rightarrow> string \<Rightarrow> error + ((real \<times> real) \<times> (real \<times> real))" where
  "get_image_bounds s image_path =
     (case gdal_Open s image_path of
        None \<Rightarrow> Inl AttributeError
      | Some ds \<Rightarrow>
          (let width = real (RasterXSize ds);
               height = real (RasterYSize ds)
           in case GeoTransform ds of (gt0, gt1, gt2, gt3, gt4, gt5) \<Rightarrow>
             (let minx = gt0;
                  miny = gt3 + width * gt4 + height * gt5;
                  maxx = gt0 + width * gt1 + height * gt2;
                  maxy = gt3
              in Inr ((minx, miny), (maxx, maxy)))))"

text \<open>\<^verbatim>\<open>get_intersection_bounds\<close>: each pair of coordinates is put in a list, the
  list is sorted, and the larger minimum and the smaller maximum are picked by index.\<close>

definition get_intersection_bounds ::
  "world \<Rightarrow> string \<Rightarrow> string \<Rightarrow> error + real list" where
  "get_intersection_bounds s image1 image2 =
     ebind (get_image_bounds s image1) (\<lambda>img1_bounds.
     ebind (get_image_bounds s image2) (\<lambda>img2_bounds.
       (let minx = sort [fst (fst img1_bounds), fst (fst img2_bounds)];
            miny = sort [snd (fst img1_bounds), snd (fst img2_bounds)];
            maxx = sort [fst (snd img1_bounds), fst (snd img2_bounds)];
            maxy = sort [snd (snd img1_bounds), snd (snd img2_bounds)]
        in Inr [minx ! 1, miny ! 1, maxx ! 0, maxy ! 0])))"

section \<open>Index composition\<close>

text \<open>Band 1 of a dataset, as \<^verbatim>\<open>GetRasterBand(1)\<close> returns it.\<close>

record band =
  XSize :: nat
  YSize :: nat
  sample :: "nat \<Rightarrow> nat \<Rightarrow> real"

definition GetRasterBand :: "dataset \<Rightarrow> band" where
  "GetRasterBand ds = \<lparr>XSize = RasterXSize ds, YSize = RasterYSize ds, sample = samples ds\<rparr>"

text \<open>\<^verbatim>\<open>band.ReadRaster(0, line, band.XSize, 1, band.XSize, 1, GDT_Float32)\<close>: one
  whole row as Float32; a row outside the band is a failed read, which GDAL reports
  as \<^verbatim>\<open>None\<close>.\<close>

definition ReadRaster :: "band \<Rightarrow> nat \<Rightarrow> real list option" where
  "ReadRaster b line =
     (if line < YSize b then Some (map (sample b line) [0..<XSize b]) else None)"

text \<open>\<^verbatim>\<open>struct.unpack('f' * n, scanline)\<close>: raises on \<^verbatim>\<open>None\<close> and on a buffer of
  another length.\<close>

definition struct_unpack :: "nat \<Rightarrow> real list option \<Rightarrow> error + real list" where
  "struct_unpack n scanline =
     (case scanline of
        None \<Rightarrow> Inl TypeError
      | Some xs \<Rightarrow> if length xs = n then Inr xs else Inl TypeError)"

text \<open>Indexing a tuple: out of range raises \<^verbatim>\<open>IndexError\<close>.\<close>

definition tuple_get :: "real list \<Rightarrow> nat \<Rightarrow> error + real" where
  "tuple_get t i = (if i < length t then Inr (t ! i) else Inl IndexError)"

definition bqa_values :: "real list" where
  "bqa_values = [61440, 59424, 57344, 56320, 53248, 52256, 52224,
     49184, 49152, 48128, 45056, 43040, 39936, 36896, 36864, 32768,
     31744, 28672]"

text \<open>The body of the inner loop of \<^verbatim>\<open>make_ndvi\<close> for column \<open>i\<close>; the tuples are
  indexed in the order the source evaluates them.\<close>

definition ndvi_pixel ::
  "real list \<Rightarrow> real list \<Rightarrow> real list \<Rightarrow> real list \<Rightarrow> nat \<Rightarrow> error + real" where
  "ndvi_pixel red_tuple nir_tuple b6_tuple bqa_tuple i =
     ebind (tuple_get bqa_tuple i) (\<lambda>q.
       if q \<in> set bqa_values then Inr 0
       else ebind (tuple_get b6_tuple i) (\<lambda>c.
         if c < 0.1 then Inr 0
         else ebind (tuple_get nir_tuple i) (\<lambda>n.
              ebind (tuple_get red_tuple i) (\<lambda>r.
                (let ndvi_lower = n + r;
                     ndvi_upper = n - r
                 in if ndvi_lower = 0 then Inr 0
                    else Inr (ndvi_upper / ndvi_lower))))))"

text \<open>\<^verbatim>\<open>for i in range(len(red_tuple))\<close>, appending each packed value to
  \<open>outputLine\<close>.\<close>

fun pixel_loop ::
  "real list \<Rightarrow> real list \<Rightarrow> real list \<Rightarrow> real list \<Rightarrow> nat list \<Rightarrow> real list
     \<Rightarrow> error + real list" where
  "pixel_loop red_tuple nir_tuple b6_tuple bqa_tuple [] outputLine = Inr outputLine"
| "pixel_loop red_tuple nir_tuple b6_tuple bqa_tuple (i # rest) outputLine =
     ebind (ndvi_pixel red_tuple nir_tuple b6_tuple bqa_tuple i) (\<lambda>ndvi.
       pixel_loop red_tuple nir_tuple b6_tuple bqa_tuple rest (outputLine @ [ndvi]))"

text \<open>\<^verbatim>\<open>WriteRaster(0, line, xsize, 1, outputLine, ...)\<close> on band 1 of the output: the
  row is replaced; a window outside the raster or a buffer of the wrong length is a
  failed write, which leaves the raster as it is and does not raise.\<close>

definition WriteRaster :: "dataset \<Rightarrow> nat \<Rightarrow> nat \<Rightarrow> real list \<Rightarrow> dataset" where
  "WriteRaster out line xsize buf =
     (if line < RasterYSize out \<and> xsize \<le> RasterXSize out \<and> length buf = xsize
      then out\<lparr>samples := (\<lambda>l c. if l = line \<and> c < xsize then buf ! c else samples out l c)\<rparr>
      else out)"

text \<open>\<^verbatim>\<open>for line in range(numLines)\<close>: the four scanlines are read and unpacked in the
  source's order, the row is computed and written.\<close>

fun line_loop ::
  "band \<Rightarrow> band \<Rightarrow> band \<Rightarrow> band \<Rightarrow> nat list \<Rightarrow> dataset \<Rightarrow> error + dataset" where
  "line_loop red_band nir_band b6_band bqa_band [] outDataset = Inr outDataset"
| "line_loop red_band nir_band b6_band bqa_band (line # rest) outDataset =
     ebind (struct_unpack (XSize red_band) (ReadRaster red_band line)) (\<lambda>red_tuple.
     ebind (struct_unpack (XSize nir_band) (ReadRaster nir_band line)) (\<lambda>nir_tuple.
     ebind (struct_unpack (XSize b6_band) (ReadRaster b6_band line)) (\<lambda>b6_tuple.
     ebind (struct_unpack (XSize bqa_band) (ReadRaster bqa_band line)) (\<lambda>bqa_tuple.
     ebind (pixel_loop red_tuple nir_tuple b6_tuple bqa_tuple [0..<length red_tuple] [])
       (\<lambda>outputLine.
         line_loop red_band nir_band b6_band bqa_band rest
           (WriteRaster outDataset line (XSize red_band) outputLine))))))"

text \<open>The attributes of a \<^verbatim>\<open>Process\<close> object that the modelled methods read, as
  \<^verbatim>\<open>__init__\<close> leaves them.\<close>

record process =
  new_name :: string
  last_image :: string
  src_image_path :: string
  delivery_path :: string
  b4 :: string
  b5 :: string
  b6 :: string
  b4_toa :: string
  b5_toa :: string
  b6_toa :: string
  bqa :: string
  mtl :: string
  ndvi :: string

text \<open>\<^verbatim>\<open>make_ref_toa\<close>. The calibration itself (class \<^verbatim>\<open>Landsat8\<close> of module
  \<^verbatim>\<open>ref_toa\<close>) is a parameter: it receives the metadata path, the band paths, the
  output suffix and the output directory.\<close>

type_synonym calibration =
  "string \<Rightarrow> string list \<Rightarrow> string \<Rightarrow> string \<Rightarrow> world \<Rightarrow> error + world"

definition make_ref_toa :: "calibration \<Rightarrow> process \<Rightarrow> world \<Rightarrow> error + world" where
  "make_ref_toa reflectanceToa self s =
     (if isfile s (mtl self)
      then reflectanceToa (mtl self) [b4 self, b5 self, b6 self] ''_toa.TIF''
             (src_image_path self) s
      else Inr (print ''MTL file not found'' s))"

text \<open>\<^verbatim>\<open>driver.Create(path, xsize, ysize, 1, GDT_Float32)\<close> followed by the two setters:
  a new raster, all samples zero.\<close>

definition Create ::
  "nat \<Rightarrow> nat \<Rightarrow> real \<times> real \<times> real \<times> real \<times> real \<times> real \<Rightarrow> string \<Rightarrow> dataset" where
  "Create xsize ysize gt proj =
     \<lparr>RasterXSize = xsize, RasterYSize = ysize, GeoTransform = gt, Projection = proj,
      samples = (\<lambda>l c. 0)\<rparr>"

text \<open>\<^verbatim>\<open>make_ndvi\<close>. The four datasets are opened after the calibration step; when all
  open, the output is created from band 4's size, geotransform and projection, filled
  row by row and stored under \<open>self.ndvi\<close>.\<close>

definition make_ndvi :: "calibration \<Rightarrow> process \<Rightarrow> world \<Rightarrow> error + world" where
  "make_ndvi reflectanceToa self s0 =
     ebind (make_ref_toa reflectanceToa self s0) (\<lambda>s.
       case gdal_Open s (b4_toa self) of
         None \<Rightarrow> Inr (print ''Some of the datasets could not be opened'' s)
       | Some d4 \<Rightarrow>
       (case gdal_Open s (b5_toa self) of
         None \<Rightarrow> Inr (print ''Some of the datasets could not be opened'' s)
       | Some d5 \<Rightarrow>
       (case gdal_Open s (b6_toa self) of
         None \<Rightarrow> Inr (print ''Some of the datasets could not be opened'' s)
       | Some d6 \<Rightarrow>
       (case gdal_Open s (bqa self) of
         None \<Rightarrow> Inr (print ''Some of the datasets could not be opened'' s)
       | Some dqa \<Rightarrow>
         (let red_band = GetRasterBand d4;
              nir_band = GetRasterBand d5;
              b6_band = GetRasterBand d6;
              bqa_band = GetRasterBand dqa;
              numLines = YSize red_band;
              outDataset = Create (RasterXSize d4) (RasterYSize d4) (GeoTransform d4)
                             (Projection d4)
          in ebind (line_loop red_band nir_band b6_band bqa_band [0..<numLines] outDataset)
               (\<lambda>out.
                 Inr (print (''NDVI Created in '' @ ndvi self)
                        (s\<lparr>files := (files s)(ndvi self \<mapsto> Raster out)\<rparr>))))))))"

section \<open>Change detection\<close>

text \<open>
  \<^verbatim>\<open>warp_image\<close>, \<^verbatim>\<open>subtract\<close> and \<^verbatim>\<open>mask_image\<close> come from module
  \<^verbatim>\<open>gdal_operations\<close>, and \<^verbatim>\<open>call\<close> starts an external program; none of them is
  defined in \<^verbatim>\<open>process.py\<close>. \<^verbatim>\<open>change_detection\<close> reads the file system only before
  the first of these operations, so the method is modelled by what it issues: the
  operations and the message, in order, or the error raised while reading the bounds.
\<close>

datatype action =
    Call_warp_image string "real list" string
  | Call_subtract string string string
  | Call_mask_image string real string
  | Call_process "string list"
  | Print string

definition change_detection :: "process \<Rightarrow> world \<Rightarrow> error + action list" where
  "change_detection self s =
     (let ndvi_warp = os_path_join (src_image_path self) (new_name self @ ''_ndvi_warp.tif'');
          last_ndvi = os_path_join (delivery_path self) (last_image self @ ''_ndvi.tif'');
          last_ndvi_warp =
            os_path_join (src_image_path self) (last_image self @ ''_ndvi_warp.tif'');
          changes = os_path_join (src_image_path self) (new_name self @ ''_changes.tif'');
          changes_mask =
            os_path_join (src_image_path self) (new_name self @ ''_changes_mask.tif'');
          sieve = os_path_join (src_image_path self) (new_name self @ ''_sieve.tif'');
          detection_shp =
            os_path_join (src_image_path self) (new_name self @ ''_detection.shp'');
          detection_geojson =
            os_path_join (delivery_path self) (new_name self @ ''_detection.geojson'')
      in
      if isfile s (ndvi self) \<and> isfile s last_ndvi then
        ebind (get_image_bounds s (ndvi self)) (\<lambda>bounds1.
        ebind (get_image_bounds s last_ndvi) (\<lambda>bounds2.
        ebind
          (if bounds1 \<noteq> bounds2 then
             ebind (get_intersection_bounds s (ndvi self) last_ndvi) (\<lambda>bounds.
               Inr [Call_warp_image (ndvi self) bounds ndvi_warp,
                    Call_warp_image last_ndvi bounds last_ndvi_warp,
                    Call_subtract ndvi_warp last_ndvi_warp changes])
           else Inr [Call_subtract (ndvi self) last_ndvi changes])
          (\<lambda>aligned.
            Inr (aligned @
              [Call_mask_image changes (- 0.08) changes_mask,
               Call_process [''gdal_sieve.py'', ''-st'', ''33'', changes_mask, sieve],
               Call_process [''gdal_polygonize.py'', sieve, ''-f'', ''ESRI Shapefile'',
                 detection_shp],
               Call_process [''ogr2ogr'', ''-where'', ''\"DN\"=1'', ''-t_srs'', ''EPSG:4674'',
                 ''-f'', ''GeoJSON'', detection_geojson, detection_shp],
               Print (''Change detection created in '' @ detection_geojson)]))))
      else
        Inr [Print
          ''Change detection was not executed because some NDVI image is missing.''])"

text \<open>
  Modelled from the spec: \<^verbatim>\<open>mask_image\<close> of module \<^verbatim>\<open>gdal_operations\<close> is missing from
  the source at hand. The specification and the docstring of \<^verbatim>\<open>change_detection\<close>
  describe it per pixel: the value 1 where the pixel is less than the threshold, the
  value 0 elsewhere.
\<close>

definition mask_image_value :: "real \<Rightarrow> real \<Rightarrow> real" where
  "mask_image_value threshold delta = (if delta < threshold then 1 else 0)"

section \<open>Names used in the statements\<close>

text \<open>The local paths of \<^verbatim>\<open>change_detection\<close>, as functions of the object.\<close>

definition ndvi_warp_of :: "process \<Rightarrow> string" where
  "ndvi_warp_of self = os_path_join (src_image_path self) (new_name self @ ''_ndvi_warp.tif'')"

definition last_ndvi_of :: "process \<Rightarrow> string" where
  "last_ndvi_of self = os_path_join (delivery_path self) (last_image self @ ''_ndvi.tif'')"

definition last_ndvi_warp_of :: "process \<Rightarrow> string" where
  "last_ndvi_warp_of self =
     os_path_join (src_image_path self) (last_image self @ ''_ndvi_warp.tif'')"

definition changes_of :: "process \<Rightarrow> string" where
  "changes_of self = os_path_join (src_image_path self) (new_name self @ ''_changes.tif'')"

definition changes_mask_of :: "process \<Rightarrow> string" where
  "changes_mask_of self =
     os_path_join (src_image_path self) (new_name self @ ''_changes_mask.tif'')"

definition sieve_of :: "process \<Rightarrow> string" where
  "sieve_of self = os_path_join (src_image_path self) (new_name self @ ''_sieve.tif'')"

definition detection_shp_of :: "process \<Rightarrow> string" where
  "detection_shp_of self =
     os_path_join (src_image_path self) (new_name self @ ''_detection.shp'')"

definition detection_geojson_of :: "process \<Rightarrow> string" where
  "detection_geojson_of self =
     os_path_join (delivery_path self) (new_name self @ ''_detection.geojson'')"

text \<open>The operations issued after the differencing: thresholding, sieve, polygonize,
  conversion, and the closing message.\<close>

definition mask_and_vectorize :: "process \<Rightarrow> action list" where
  "mask_and_vectorize self =
     [Call_mask_image (changes_of self) (- 0.08) (changes_mask_of self),
      Call_process [''gdal_sieve.py'', ''-st'', ''33'', changes_mask_of self, sieve_of self],
      Call_process [''gdal_polygonize.py'', sieve_of self, ''-f'', ''ESRI Shapefile'',
        detection_shp_of self],
      Call_process [''ogr2ogr'', ''-where'', ''\"DN\"=1'', ''-t_srs'', ''EPSG:4674'',
        ''-f'', ''GeoJSON'', detection_geojson_of self, detection_shp_of self],
      Print (''Change detection created in '' @ detection_geojson_of self)]"

text \<open>The operations issued when the two extents differ.\<close>

definition warp_and_subtract :: "process \<Rightarrow> real list \<Rightarrow> action list" where
  "warp_and_subtract self bounds =
     [Call_warp_image (ndvi self) bounds (ndvi_warp_of self),
      Call_warp_image (last_ndvi_of self) bounds (last_ndvi_warp_of self),
      Call_subtract (ndvi_warp_of self) (last_ndvi_warp_of self) (changes_of self)]"

text \<open>The per-pixel rule in the specification's words: quality code \<open>q\<close>, validity-gate
  value \<open>c\<close>, ratio bands \<open>a\<close> and \<open>b\<close> with numerator \<open>a - b\<close>.\<close>

definition spec_index_value :: "real \<Rightarrow> real \<Rightarrow> real \<Rightarrow> real \<Rightarrow> real" where
  "spec_index_value q c a b =
     (if q \<in> set bqa_values then 0
      else if c < 0.1 then 0
      else if a + b = 0 then 0
      else (a - b) / (a + b))"

section \<open>Example inputs\<close>

text \<open>A scene of 4 by 3 pixels of 30 m, the same grid moved east by two pixels, and
  a grid far to the east that shares no ground with the first.\<close>

definition ex_ds :: dataset where
  "ex_ds = \<lparr>RasterXSize = 4, RasterYSize = 3, GeoTransform = (100, 30, 0, 200, 0, - 30),
            Projection = ''EPSG:32622'', samples = (\<lambda>l c. 0)\<rparr>"

definition ex_ds_shifted :: dataset where
  "ex_ds_shifted = ex_ds\<lparr>GeoTransform := (160, 30, 0, 200, 0, - 30)\<rparr>"

definition ex_ds_far :: dataset where
  "ex_ds_far = ex_ds\<lparr>GeoTransform := (1000, 30, 0, 200, 0, - 30)\<rparr>"

definition ex_self :: process where
  "ex_self = \<lparr>new_name = ''LC8_221-071_20140117_LGN00'',
              last_image = ''LC8_221-071_20140101_LGN00'',
              src_image_path = ''/l/temp/LC82210712014017LGN00'',
              delivery_path = ''/l/processed/221/071'',
              b4 = ''/l/temp/LC82210712014017LGN00/LC82210712014017LGN00_B4.TIF'',
              b5 = ''/l/temp/LC82210712014017LGN00/LC82210712014017LGN00_B5.TIF'',
              b6 = ''/l/temp/LC82210712014017LGN00/LC82210712014017LGN00_B6.TIF'',
              b4_toa = ''/l/temp/LC82210712014017LGN00/LC82210712014017LGN00_B4_toa.TIF'',
              b5_toa = ''/l/temp/LC82210712014017LGN00/LC82210712014017LGN00_B5_toa.TIF'',
              b6_toa = ''/l/temp/LC82210712014017LGN00/LC82210712014017LGN00_B6_toa.TIF'',
              bqa = ''/l/temp/LC82210712014017LGN00/LC82210712014017LGN00_BQA.TIF'',
              mtl = ''/l/temp/LC82210712014017LGN00/LC82210712014017LGN00_MTL.txt'',
              ndvi = ''/l/processed/221/071/LC8_221-071_20140117_LGN00_ndvi.tif''\<rparr>"

definition ex_last_ndvi :: string where
  "ex_last_ndvi = ''/l/processed/221/071/LC8_221-071_20140101_LGN00_ndvi.tif''"

text \<open>File systems holding the current index raster and a prior one: on the same
  extent, on a shifted extent, on a disjoint extent, and with no prior raster.\<close>

definition ex_world :: "dataset \<Rightarrow> world" where
  "ex_world prior =
     \<lparr>files = [ndvi ex_self \<mapsto> Raster ex_ds, ex_last_ndvi \<mapsto> Raster prior], stdout = []\<rparr>"

definition ex_world_first_scene :: world where
  "ex_world_first_scene = \<lparr>files = [ndvi ex_self \<mapsto> Raster ex_ds], stdout = []\<rparr>"

text \<open>Calibrated bands of a scene of 2 by 1 pixels. The near-infrared band is one
  column wider than the others; the second pixel carries a cloud code.\<close>

definition ex_red :: dataset where
  "ex_red = \<lparr>RasterXSize = 2, RasterYSize = 1, GeoTransform = (100, 30, 0, 200, 0, - 30),
             Projection = ''EPSG:32622'', samples = (\<lambda>l c. 0.1)\<rparr>"

definition ex_nir_wide :: dataset where
  "ex_nir_wide = \<lparr>RasterXSize = 3, RasterYSize = 1,
                  GeoTransform = (100, 30, 0, 200, 0, - 30),
                  Projection = ''EPSG:32622'', samples = (\<lambda>l c. 0.5)\<rparr>"

definition ex_swir :: dataset where
  "ex_swir = ex_red\<lparr>samples := (\<lambda>l c. 0.3)\<rparr>"

definition ex_quality :: dataset where
  "ex_quality = ex_red\<lparr>samples := (\<lambda>l c. if c = 1 then 61440 else 20480)\<rparr>"

text \<open>A calibration step that finds its outputs already in place.\<close>

definition ex_calibration :: calibration where
  "ex_calibration metadata bands outname outpath s = Inr s"

definition ex_scene :: world where
  "ex_scene =
     \<lparr>files = [mtl ex_self \<mapsto> Other,
               b4_toa ex_self \<mapsto> Raster ex_red,
               b5_toa ex_self \<mapsto> Raster ex_nir_wide,
               b6_toa ex_self \<mapsto> Raster ex_swir,
               bqa ex_self \<mapsto> Raster ex_quality],
      stdout = []\<rparr>"

text \<open>The same scene with a quality band that is not a raster.\<close>

definition ex_scene_bad_quality :: world where
  "ex_scene_bad_quality = ex_scene\<lparr>files := (files ex_scene)(bqa ex_self \<mapsto> Other)\<rparr>"

text \<open>A scene whose red band is negative at the second pixel, with a clear quality
  band, so that no masking rule applies there.\<close>

definition ex_red_negative :: dataset where
  "ex_red_negative = ex_red\<lparr>samples := (\<lambda>l c. if c = 1 then - 0.3 else 0.1)\<rparr>"

definition ex_quality_clear :: dataset where
  "ex_quality_clear = ex_red\<lparr>samples := (\<lambda>l c. 20480)\<rparr>"

definition ex_scene_negative :: world where
  "ex_scene_negative =
     \<lparr>files = [mtl ex_self \<mapsto> Other,
               b4_toa ex_self \<mapsto> Raster ex_red_negative,
               b5_toa ex_self \<mapsto> Raster ex_nir_wide,
               b6_toa ex_self \<mapsto> Raster ex_swir,
               bqa ex_self \<mapsto> Raster ex_quality_clear],
      stdout = []\<rparr>"

section \<open>Properties of the bounds helpers\<close>

lemma get_image_bounds_Some:
  "gdal_Open s p = Some ds \<Longrightarrow>
   get_image_bounds s p =
     Inr ((fst (GeoTransform ds),
           fst (snd (snd (snd (GeoTransform ds))))
             + real (RasterXSize ds) * fst (snd (snd (snd (snd (GeoTransform ds)))))
             + real (RasterYSize ds) * snd (snd (snd (snd (snd (GeoTransform ds)))))),
          (fst (GeoTransform ds)
             + real (RasterXSize ds) * fst (snd (GeoTransform ds))
             + real (RasterYSize ds) * fst (snd (snd (GeoTransform ds))),
           fst (snd (snd (snd (GeoTransform ds))))))"
  by (simp add: get_image_bounds_def Let_def split: prod.splits)

lemma get_image_bounds_None:
  "gdal_Open s p = None \<Longrightarrow> get_image_bounds s p = Inl AttributeError"
  by (simp add: get_image_bounds_def)

text \<open>
  Claim C7. For a raster that opens, with geotransform
  (originX, pixelW, rotX, originY, rotY, pixelH), width w and height h,
  \<open>get_image_bounds\<close> returns minX = originX, maxY = originY,
  maxX = originX + w * pixelW + h * rotX and minY = originY + w * rotY + h * pixelH,
  as the pair ((minX, minY), (maxX, maxY)).
\<close>

theorem get_image_bounds_formula:
  assumes "gdal_Open s p = Some ds"
    and "GeoTransform ds = (originX, pixelW, rotX, originY, rotY, pixelH)"
    and "RasterXSize ds = w" and "RasterYSize ds = h"
  shows "get_image_bounds s p =
           Inr ((originX, originY + real w * rotY + real h * pixelH),
                (originX + real w * pixelW + real h * rotX, originY))"
  using assms by (simp add: get_image_bounds_def Let_def)

lemma get_image_bounds_error:
  "get_image_bounds s p = Inl e \<Longrightarrow> e = AttributeError"
  by (auto simp: get_image_bounds_def Let_def split: option.splits prod.splits)

theorem get_image_bounds_formula_witness:
  "get_image_bounds (ex_world ex_ds) (ndvi ex_self) = Inr ((100, 110), (220, 200))"
proof -
  have opened: "gdal_Open (ex_world ex_ds) (ndvi ex_self) = Some ex_ds"
    by (simp add: gdal_Open_def ex_world_def ex_self_def ex_last_ndvi_def)
  have gt: "GeoTransform ex_ds = (100, 30, 0, 200, 0, - 30)"
    by (simp add: ex_ds_def)
  have w: "RasterXSize ex_ds = 4" and h: "RasterYSize ex_ds = 3"
    by (simp_all add: ex_ds_def)
  show ?thesis
    using get_image_bounds_formula [OF opened gt w h] by simp
qed

lemma ebind_Inr [simp]: "ebind (Inr x) f = f x"
  by (simp add: ebind_def)

lemma ebind_Inl [simp]: "ebind (Inl e) f = Inl e"
  by (simp add: ebind_def)

lemma get_intersection_bounds_Inr:
  assumes "get_image_bounds s p1 = Inr ((minx1, miny1), (maxx1, maxy1))"
    and "get_image_bounds s p2 = Inr ((minx2, miny2), (maxx2, maxy2))"
  shows "get_intersection_bounds s p1 p2 =
           Inr [max minx1 minx2, max miny1 miny2, min maxx1 maxx2, min maxy1 maxy2]"
  using assms by (simp add: get_intersection_bounds_def Let_def max_def min_def)

lemma get_intersection_bounds_commute:
  "get_intersection_bounds s image1 image2 = get_intersection_bounds s image2 image1"
proof (cases "get_image_bounds s image1")
  case (Inl e1)
  then have e1: "e1 = AttributeError" by (rule get_image_bounds_error)
  show ?thesis
  proof (cases "get_image_bounds s image2")
    case (Inl e2)
    then have "e2 = AttributeError" by (rule get_image_bounds_error)
    with e1 Inl \<open>get_image_bounds s image1 = Inl e1\<close> show ?thesis
      by (simp add: get_intersection_bounds_def)
  next
    case (Inr b2)
    with \<open>get_image_bounds s image1 = Inl e1\<close> show ?thesis
      by (simp add: get_intersection_bounds_def)
  qed
next
  case (Inr b1)
  show ?thesis
  proof (cases "get_image_bounds s image2")
    case (Inl e2)
    with Inr show ?thesis by (simp add: get_intersection_bounds_def)
  next
    case (Inr b2)
    obtain x1 y1 u1 v1 where b1: "b1 = ((x1, y1), (u1, v1))" by (metis surj_pair)
    obtain x2 y2 u2 v2 where b2: "b2 = ((x2, y2), (u2, v2))" by (metis surj_pair)
    from \<open>get_image_bounds s image1 = Inr b1\<close> Inr b1 b2 show ?thesis
      by (simp add: get_intersection_bounds_Inr max.commute min.commute)
  qed
qed

text \<open>
  Claim C9. \<open>get_intersection_bounds\<close> is commutative in its two rasters, and for two
  rasters that open it is the componentwise maximum of the two minX and minY values and
  the componentwise minimum of the two maxX and maxY values.
\<close>

theorem get_intersection_bounds_commutative:
  "get_intersection_bounds s A B = get_intersection_bounds s B A \<and>
   (get_image_bounds s A = Inr ((minXA, minYA), (maxXA, maxYA)) \<longrightarrow>
    get_image_bounds s B = Inr ((minXB, minYB), (maxXB, maxYB)) \<longrightarrow>
    get_intersection_bounds s A B =
      Inr [max minXA minXB, max minYA minYB, min maxXA maxXB, min maxYA maxYB])"
proof (intro conjI impI)
  show "get_intersection_bounds s A B = get_intersection_bounds s B A"
    by (rule get_intersection_bounds_commute)
next
  assume "get_image_bounds s A = Inr ((minXA, minYA), (maxXA, maxYA))"
    and "get_image_bounds s B = Inr ((minXB, minYB), (maxXB, maxYB))"
  then show "get_intersection_bounds s A B =
      Inr [max minXA minXB, max minYA minYB, min maxXA maxXB, min maxYA maxYB]"
    by (rule get_intersection_bounds_Inr)
qed

section \<open>Properties of change detection\<close>

lemmas path_defs = ndvi_warp_of_def last_ndvi_of_def last_ndvi_warp_of_def changes_of_def
  changes_mask_of_def sieve_of_def detection_shp_of_def detection_geojson_of_def

lemma change_detection_unfold:
  "change_detection self s =
     (if isfile s (ndvi self) \<and> isfile s (last_ndvi_of self) then
        ebind (get_image_bounds s (ndvi self)) (\<lambda>bounds1.
        ebind (get_image_bounds s (last_ndvi_of self)) (\<lambda>bounds2.
        ebind
          (if bounds1 \<noteq> bounds2 then
             ebind (get_intersection_bounds s (ndvi self) (last_ndvi_of self))
               (\<lambda>bounds. Inr (warp_and_subtract self bounds))
           else Inr [Call_subtract (ndvi self) (last_ndvi_of self) (changes_of self)])
          (\<lambda>aligned. Inr (aligned @ mask_and_vectorize self))))
      else
        Inr [Print
          ''Change detection was not executed because some NDVI image is missing.''])"
  unfolding change_detection_def path_defs mask_and_vectorize_def warp_and_subtract_def Let_def
  by (rule refl)

lemma gdal_Open_isfile: "gdal_Open s p = Some ds \<Longrightarrow> isfile s p"
  by (auto simp: gdal_Open_def isfile_def split: option.splits)

lemma get_image_bounds_Inr:
  "gdal_Open s p = Some ds \<Longrightarrow> \<exists>b. get_image_bounds s p = Inr b"
  by (simp add: get_image_bounds_Some)

text \<open>
  Claim C2. When the current index file or the prior index file is absent,
  \<open>change_detection\<close> is skipped, not failed: it returns normally, its only effect is
  the message that it was not executed, and no alignment, differencing, thresholding or
  vectorization operation is issued.
\<close>

theorem change_detection_skipped:
  assumes "\<not> (isfile s (ndvi self) \<and> isfile s (last_ndvi_of self))"
  shows "change_detection self s =
           Inr [Print ''Change detection was not executed because some NDVI image is missing.'']"
  using assms by (auto simp: change_detection_unfold)

lemma change_detection_equal:
  assumes "gdal_Open s (ndvi self) = Some cur"
    and "gdal_Open s (last_ndvi_of self) = Some prior"
    and "get_image_bounds s (ndvi self) = get_image_bounds s (last_ndvi_of self)"
  shows "change_detection self s =
           Inr (Call_subtract (ndvi self) (last_ndvi_of self) (changes_of self)
                  # mask_and_vectorize self)"
proof -
  obtain b1 where b1: "get_image_bounds s (ndvi self) = Inr b1"
    using get_image_bounds_Inr [OF assms(1)] by blast
  have files: "isfile s (ndvi self) \<and> isfile s (last_ndvi_of self)"
    using assms(1,2) by (simp add: gdal_Open_isfile)
  show ?thesis
    using files b1 assms(3) by (simp add: change_detection_unfold)
qed

lemma change_detection_differ:
  assumes "gdal_Open s (ndvi self) = Some cur"
    and "gdal_Open s (last_ndvi_of self) = Some prior"
    and "get_image_bounds s (ndvi self) \<noteq> get_image_bounds s (last_ndvi_of self)"
  shows "\<exists>bounds. get_intersection_bounds s (ndvi self) (last_ndvi_of self) = Inr bounds \<and>
           change_detection self s =
             Inr (warp_and_subtract self bounds @ mask_and_vectorize self)"
proof -
  obtain b1 where b1: "get_image_bounds s (ndvi self) = Inr b1"
    using get_image_bounds_Inr [OF assms(1)] by blast
  obtain b2 where b2: "get_image_bounds s (last_ndvi_of self) = Inr b2"
    using get_image_bounds_Inr [OF assms(2)] by blast
  have files: "isfile s (ndvi self) \<and> isfile s (last_ndvi_of self)"
    using assms(1,2) by (simp add: gdal_Open_isfile)
  obtain bounds where
    bounds: "get_intersection_bounds s (ndvi self) (last_ndvi_of self) = Inr bounds"
    using b1 b2 by (simp add: get_intersection_bounds_def Let_def)
  have "change_detection self s = Inr (warp_and_subtract self bounds @ mask_and_vectorize self)"
    using files b1 b2 bounds assms(3) by (simp add: change_detection_unfold)
  with bounds show ?thesis by blast
qed

lemma change_detection_shape:
  assumes "change_detection self s = Inr acts"
  shows "acts = [Print ''Change detection was not executed because some NDVI image is missing.'']
         \<or> acts = Call_subtract (ndvi self) (last_ndvi_of self) (changes_of self)
                    # mask_and_vectorize self
         \<or> (\<exists>bounds. acts = warp_and_subtract self bounds @ mask_and_vectorize self)"
proof (cases "isfile s (ndvi self) \<and> isfile s (last_ndvi_of self)")
  case False
  with assms show ?thesis by (auto simp: change_detection_unfold)
next
  case True
  from True assms obtain b1 where b1: "get_image_bounds s (ndvi self) = Inr b1"
    by (cases "get_image_bounds s (ndvi self)") (auto simp: change_detection_unfold)
  from True assms b1 obtain b2 where b2: "get_image_bounds s (last_ndvi_of self) = Inr b2"
    by (cases "get_image_bounds s (last_ndvi_of self)") (auto simp: change_detection_unfold)
  show ?thesis
  proof (cases "b1 = b2")
    case True
    with \<open>isfile s (ndvi self) \<and> isfile s (last_ndvi_of self)\<close> assms b1 b2
    show ?thesis by (auto simp: change_detection_unfold)
  next
    case False
    from b1 b2 obtain bounds where
      "get_intersection_bounds s (ndvi self) (last_ndvi_of self) = Inr bounds"
      by (simp add: get_intersection_bounds_def Let_def)
    with False \<open>isfile s (ndvi self) \<and> isfile s (last_ndvi_of self)\<close> assms b1 b2
    show ?thesis by (auto simp: change_detection_unfold)
  qed
qed

lemma change_detection_mask_call:
  assumes "change_detection self s = Inr acts"
    and "Call_mask_image src t dst \<in> set acts"
  shows "src = changes_of self \<and> t = - 0.08 \<and> dst = changes_mask_of self"
  using change_detection_shape [OF assms(1)] assms(2)
  by (auto simp: mask_and_vectorize_def warp_and_subtract_def)

subsection \<open>The example scenes\<close>

lemma ex_last_ndvi: "last_ndvi_of ex_self = ex_last_ndvi"
  by (simp add: last_ndvi_of_def os_path_join_def ex_self_def ex_last_ndvi_def)

lemma ex_open_current: "gdal_Open (ex_world d) (ndvi ex_self) = Some ex_ds"
  by (simp add: gdal_Open_def ex_world_def ex_self_def ex_last_ndvi_def)

lemma ex_open_prior: "gdal_Open (ex_world d) (last_ndvi_of ex_self) = Some d"
  by (simp add: gdal_Open_def ex_world_def ex_last_ndvi)

lemma ex_bounds_current:
  "get_image_bounds (ex_world d) (ndvi ex_self) = Inr ((100, 110), (220, 200))"
  by (simp add: get_image_bounds_Some [OF ex_open_current] ex_ds_def)

lemma ex_bounds_same:
  "get_image_bounds (ex_world ex_ds) (last_ndvi_of ex_self) = Inr ((100, 110), (220, 200))"
  by (simp add: get_image_bounds_Some [OF ex_open_prior] ex_ds_def)

lemma ex_bounds_shifted:
  "get_image_bounds (ex_world ex_ds_shifted) (last_ndvi_of ex_self) =
     Inr ((160, 110), (280, 200))"
  by (simp add: get_image_bounds_Some [OF ex_open_prior] ex_ds_shifted_def ex_ds_def)

lemma ex_bounds_far:
  "get_image_bounds (ex_world ex_ds_far) (last_ndvi_of ex_self) =
     Inr ((1000, 110), (1120, 200))"
  by (simp add: get_image_bounds_Some [OF ex_open_prior] ex_ds_far_def ex_ds_def)

lemma ex_intersection_shifted:
  "get_intersection_bounds (ex_world ex_ds_shifted) (ndvi ex_self) (last_ndvi_of ex_self) =
     Inr [160, 110, 220, 200]"
  by (simp add: get_intersection_bounds_Inr [OF ex_bounds_current ex_bounds_shifted])

lemma ex_intersection_far:
  "get_intersection_bounds (ex_world ex_ds_far) (ndvi ex_self) (last_ndvi_of ex_self) =
     Inr [1000, 110, 220, 200]"
  by (simp add: get_intersection_bounds_Inr [OF ex_bounds_current ex_bounds_far])

theorem get_intersection_bounds_commutative_witness:
  "get_intersection_bounds (ex_world ex_ds_shifted) (ndvi ex_self) (last_ndvi_of ex_self) =
     get_intersection_bounds (ex_world ex_ds_shifted) (last_ndvi_of ex_self) (ndvi ex_self) \<and>
   get_intersection_bounds (ex_world ex_ds_shifted) (ndvi ex_self) (last_ndvi_of ex_self) =
     Inr [max 100 160, max 110 110, min 220 280, min 200 200]"
  using get_intersection_bounds_commutative
    [of "ex_world ex_ds_shifted" "ndvi ex_self" "last_ndvi_of ex_self" 100 110 220 200
        160 110 280 200]
  by (auto simp: ex_bounds_current ex_bounds_shifted)


theorem change_detection_skipped_witness:
  "\<not> (isfile ex_world_first_scene (ndvi ex_self)
        \<and> isfile ex_world_first_scene (last_ndvi_of ex_self)) \<and>
   change_detection ex_self ex_world_first_scene =
     Inr [Print ''Change detection was not executed because some NDVI image is missing.'']"
proof -
  have h: "\<not> (isfile ex_world_first_scene (ndvi ex_self)
              \<and> isfile ex_world_first_scene (last_ndvi_of ex_self))"
    unfolding ex_last_ndvi
    by (simp add: isfile_def ex_world_first_scene_def ex_last_ndvi_def ex_self_def)
  show ?thesis using h change_detection_skipped [OF h] by simp
qed

text \<open>
  Claim C3. For two index rasters that are present and open: when the two extents are
  equal in all four bounds, the subtraction is issued on the original files and no warp
  is issued; when they differ, both files are warped onto the intersection extent and
  the subtraction is issued on the two warped files.
\<close>

theorem change_detection_alignment:
  assumes "gdal_Open s (ndvi self) = Some cur"
    and "gdal_Open s (last_ndvi_of self) = Some prior"
  shows "(get_image_bounds s (ndvi self) = get_image_bounds s (last_ndvi_of self) \<longrightarrow>
            change_detection self s =
              Inr (Call_subtract (ndvi self) (last_ndvi_of self) (changes_of self)
                     # mask_and_vectorize self)) \<and>
         (get_image_bounds s (ndvi self) \<noteq> get_image_bounds s (last_ndvi_of self) \<longrightarrow>
            (\<exists>bounds. get_intersection_bounds s (ndvi self) (last_ndvi_of self) = Inr bounds \<and>
               change_detection self s =
                 Inr ([Call_warp_image (ndvi self) bounds (ndvi_warp_of self),
                       Call_warp_image (last_ndvi_of self) bounds (last_ndvi_warp_of self),
                       Call_subtract (ndvi_warp_of self) (last_ndvi_warp_of self)
                         (changes_of self)]
                      @ mask_and_vectorize self)))"
  using change_detection_equal [OF assms] change_detection_differ [OF assms]
  by (simp add: warp_and_subtract_def)

theorem change_detection_alignment_witness:
  "change_detection ex_self (ex_world ex_ds) =
     Inr (Call_subtract (ndvi ex_self) (last_ndvi_of ex_self) (changes_of ex_self)
            # mask_and_vectorize ex_self) \<and>
   change_detection ex_self (ex_world ex_ds_shifted) =
     Inr ([Call_warp_image (ndvi ex_self) [160, 110, 220, 200] (ndvi_warp_of ex_self),
           Call_warp_image (last_ndvi_of ex_self) [160, 110, 220, 200]
             (last_ndvi_warp_of ex_self),
           Call_subtract (ndvi_warp_of ex_self) (last_ndvi_warp_of ex_self)
             (changes_of ex_self)]
          @ mask_and_vectorize ex_self)"
  using change_detection_alignment [OF ex_open_current ex_open_prior, of ex_ds]
    change_detection_alignment [OF ex_open_current ex_open_prior, of ex_ds_shifted]
  by (simp add: ex_bounds_current ex_bounds_same ex_bounds_shifted ex_intersection_shifted)

text \<open>
  Claim C6, as stated, fails. The prior scene lies far to the east of the current one:
  the intersection extent is degenerate (minX = 1000, maxX = 220), and
  \<open>change_detection\<close> raises nothing; it issues both warps with that extent and goes on.
\<close>

theorem change_detection_disjoint_counterexample:
  "get_intersection_bounds (ex_world ex_ds_far) (ndvi ex_self) (last_ndvi_of ex_self) =
     Inr [1000, 110, 220, 200] \<and>
   (1000 :: real) \<ge> 220 \<and>
   change_detection ex_self (ex_world ex_ds_far) =
     Inr ([Call_warp_image (ndvi ex_self) [1000, 110, 220, 200] (ndvi_warp_of ex_self),
           Call_warp_image (last_ndvi_of ex_self) [1000, 110, 220, 200]
             (last_ndvi_warp_of ex_self),
           Call_subtract (ndvi_warp_of ex_self) (last_ndvi_warp_of ex_self)
             (changes_of ex_self)]
          @ mask_and_vectorize ex_self)"
  using change_detection_differ [OF ex_open_current ex_open_prior, of ex_ds_far]
  by (simp add: ex_bounds_current ex_bounds_far ex_intersection_far warp_and_subtract_def)

text \<open>
  Claim C6, amended. For two index rasters that are present and open, whose extents
  differ and whose intersection extent is degenerate (minX \<ge> maxX or minY \<ge> maxY),
  \<open>change_detection\<close> performs no overlap check and raises no error of its own: it
  passes the degenerate extent to the warp of both inputs and continues with the
  subtraction, the thresholding and the vectorization.
\<close>

theorem change_detection_degenerate_proceeds:
  assumes "gdal_Open s (ndvi self) = Some cur"
    and "gdal_Open s (last_ndvi_of self) = Some prior"
    and "get_image_bounds s (ndvi self) \<noteq> get_image_bounds s (last_ndvi_of self)"
    and "get_intersection_bounds s (ndvi self) (last_ndvi_of self) = Inr [minX, minY, maxX, maxY]"
    and "minX \<ge> maxX \<or> minY \<ge> maxY"
  shows "change_detection self s =
           Inr ([Call_warp_image (ndvi self) [minX, minY, maxX, maxY] (ndvi_warp_of self),
                 Call_warp_image (last_ndvi_of self) [minX, minY, maxX, maxY]
                   (last_ndvi_warp_of self),
                 Call_subtract (ndvi_warp_of self) (last_ndvi_warp_of self) (changes_of self)]
                @ mask_and_vectorize self)"
  using change_detection_differ [OF assms(1,2,3)] assms(4)
  by (simp add: warp_and_subtract_def)

theorem change_detection_degenerate_proceeds_witness:
  "change_detection ex_self (ex_world ex_ds_far) =
     Inr ([Call_warp_image (ndvi ex_self) [1000, 110, 220, 200] (ndvi_warp_of ex_self),
           Call_warp_image (last_ndvi_of ex_self) [1000, 110, 220, 200]
             (last_ndvi_warp_of ex_self),
           Call_subtract (ndvi_warp_of ex_self) (last_ndvi_warp_of ex_self)
             (changes_of ex_self)]
          @ mask_and_vectorize ex_self)"
proof -
  have differ: "get_image_bounds (ex_world ex_ds_far) (ndvi ex_self)
                  \<noteq> get_image_bounds (ex_world ex_ds_far) (last_ndvi_of ex_self)"
    by (simp add: ex_bounds_current ex_bounds_far)
  have degenerate: "(1000 :: real) \<ge> 220 \<or> (110 :: real) \<ge> 200"
    by simp
  show ?thesis
    by (rule change_detection_degenerate_proceeds
          [OF ex_open_current ex_open_prior differ ex_intersection_far degenerate])
qed

text \<open>
  Claim C4. Whenever both index rasters open, \<open>change_detection\<close> issues the
  thresholding: exactly one mask operation, directly after the subtraction that writes
  the delta raster, reading that raster with the threshold -0.08. With the mask rule of
  the specification a pixel is 1 exactly when its delta is strictly below -0.08 and 0
  otherwise: -0.09 gives 1, -0.07 gives 0, and no delta that is zero or positive (such
  as 0.5) is flagged.
\<close>

theorem change_mask_threshold:
  assumes "gdal_Open s (ndvi self) = Some cur"
    and "gdal_Open s (last_ndvi_of self) = Some prior"
  shows "\<exists>pre a b post.
           change_detection self s =
             Inr (pre @ [Call_subtract a b (changes_of self),
                         Call_mask_image (changes_of self) (- 0.08) (changes_mask_of self)]
                      @ post) \<and>
           (\<forall>src t dst. Call_mask_image src t dst \<notin> set pre \<and>
                         Call_mask_image src t dst \<notin> set post) \<and>
           (mask_image_value (- 0.08) delta = 1 \<longleftrightarrow> delta < - 0.08) \<and>
           (mask_image_value (- 0.08) delta = 0 \<longleftrightarrow> \<not> delta < - 0.08) \<and>
           (0 \<le> delta \<longrightarrow> mask_image_value (- 0.08) delta = 0) \<and>
           mask_image_value (- 0.08) (- 0.09) = 1 \<and>
           mask_image_value (- 0.08) (- 0.07) = 0 \<and>
           mask_image_value (- 0.08) 0.5 = 0"
proof -
  let ?mask = "Call_mask_image (changes_of self) (- 0.08) (changes_mask_of self)"
  have rule: "(mask_image_value (- 0.08) delta = 1 \<longleftrightarrow> delta < - 0.08) \<and>
           (mask_image_value (- 0.08) delta = 0 \<longleftrightarrow> \<not> delta < - 0.08) \<and>
           (0 \<le> delta \<longrightarrow> mask_image_value (- 0.08) delta = 0) \<and>
           mask_image_value (- 0.08) (- 0.09) = 1 \<and>
           mask_image_value (- 0.08) (- 0.07) = 0 \<and>
           mask_image_value (- 0.08) 0.5 = 0"
    by (simp add: mask_image_value_def)
  obtain post where post: "mask_and_vectorize self = ?mask # post"
    "\<forall>src t dst. Call_mask_image src t dst \<notin> set post"
    by (simp add: mask_and_vectorize_def)
  show ?thesis
  proof (cases "get_image_bounds s (ndvi self) = get_image_bounds s (last_ndvi_of self)")
    case True
    have "change_detection self s =
            Inr ([] @ [Call_subtract (ndvi self) (last_ndvi_of self) (changes_of self), ?mask]
                    @ post)"
      using change_detection_equal [OF assms True] post(1) by simp
    moreover have "\<forall>src t dst. Call_mask_image src t dst \<notin> set ([] :: action list) \<and>
                     Call_mask_image src t dst \<notin> set post"
      using post(2) by simp
    ultimately show ?thesis using rule by blast
  next
    case False
    from change_detection_differ [OF assms False] obtain bounds where
      run: "change_detection self s =
              Inr (warp_and_subtract self bounds @ mask_and_vectorize self)"
      by blast
    let ?pre = "[Call_warp_image (ndvi self) bounds (ndvi_warp_of self),
                 Call_warp_image (last_ndvi_of self) bounds (last_ndvi_warp_of self)]"
    have "change_detection self s =
            Inr (?pre @ [Call_subtract (ndvi_warp_of self) (last_ndvi_warp_of self)
                           (changes_of self), ?mask] @ post)"
      using run post(1) by (simp add: warp_and_subtract_def)
    moreover have "\<forall>src t dst. Call_mask_image src t dst \<notin> set ?pre \<and>
                     Call_mask_image src t dst \<notin> set post"
      using post(2) by simp
    ultimately show ?thesis using rule by blast
  qed
qed

theorem change_mask_threshold_witness:
  "\<exists>pre a b post.
     change_detection ex_self (ex_world ex_ds) =
       Inr (pre @ [Call_subtract a b (changes_of ex_self),
                   Call_mask_image (changes_of ex_self) (- 0.08) (changes_mask_of ex_self)]
                @ post) \<and>
     (\<forall>src t dst. Call_mask_image src t dst \<notin> set pre \<and>
                   Call_mask_image src t dst \<notin> set post) \<and>
     mask_image_value (- 0.08) (- 0.09) = 1 \<and>
     mask_image_value (- 0.08) (- 0.07) = 0 \<and>
     mask_image_value (- 0.08) 0.5 = 0"
  using change_mask_threshold [OF ex_open_current ex_open_prior, of ex_ds 0]
  by blast

section \<open>Properties of index composition\<close>

lemma tuple_get_in: "i < length t \<Longrightarrow> tuple_get t i = Inr (t ! i)"
  by (simp add: tuple_get_def)

lemma ndvi_pixel_in_range:
  assumes "i < length bqa_tuple" "i < length b6_tuple" "i < length nir_tuple"
    "i < length red_tuple"
  shows "ndvi_pixel red_tuple nir_tuple b6_tuple bqa_tuple i =
           Inr (spec_index_value (bqa_tuple ! i) (b6_tuple ! i) (nir_tuple ! i) (red_tuple ! i))"
  using assms by (simp add: ndvi_pixel_def tuple_get_in spec_index_value_def Let_def)

text \<open>A near-infrared row shorter than the red row: the unmasked pixel beyond its end
  raises \<^verbatim>\<open>IndexError\<close>.\<close>

lemma ndvi_pixel_short_row:
  "ndvi_pixel [0.1, 0.1] [0.5] [0.3, 0.3] [20480, 20480] 1 = Inl IndexError"
  by (simp add: ndvi_pixel_def tuple_get_def bqa_values_def)

lemma pixel_loop_in_range:
  assumes "\<forall>i \<in> set cols. i < length bqa_tuple \<and> i < length b6_tuple
             \<and> i < length nir_tuple \<and> i < length red_tuple"
  shows "pixel_loop red_tuple nir_tuple b6_tuple bqa_tuple cols outputLine =
           Inr (outputLine @
                map (\<lambda>i. spec_index_value (bqa_tuple ! i) (b6_tuple ! i) (nir_tuple ! i)
                            (red_tuple ! i)) cols)"
  using assms
proof (induction cols arbitrary: outputLine)
  case Nil
  then show ?case by simp
next
  case (Cons i rest)
  then show ?case by (simp add: ndvi_pixel_in_range)
qed

lemma read_scanline:
  "line < YSize b \<Longrightarrow>
   struct_unpack (XSize b) (ReadRaster b line) = Inr (map (sample b line) [0..<XSize b])"
  by (simp add: struct_unpack_def ReadRaster_def)

lemma WriteRaster_header [simp]:
  "RasterXSize (WriteRaster out line xsize buf) = RasterXSize out"
  "RasterYSize (WriteRaster out line xsize buf) = RasterYSize out"
  "GeoTransform (WriteRaster out line xsize buf) = GeoTransform out"
  "Projection (WriteRaster out line xsize buf) = Projection out"
  by (simp_all add: WriteRaster_def)

lemma WriteRaster_samples:
  "line < RasterYSize out \<Longrightarrow> xsize \<le> RasterXSize out \<Longrightarrow> length buf = xsize \<Longrightarrow>
   samples (WriteRaster out line xsize buf) l c =
     (if l = line \<and> c < xsize then buf ! c else samples out l c)"
  by (simp add: WriteRaster_def)

lemma line_loop_in_range:
  assumes "XSize red_band \<le> XSize nir_band" "XSize red_band \<le> XSize b6_band"
    "XSize red_band \<le> XSize bqa_band" "XSize red_band \<le> RasterXSize out"
    and "\<forall>line \<in> set rows. line < YSize red_band \<and> line < YSize nir_band
           \<and> line < YSize b6_band \<and> line < YSize bqa_band \<and> line < RasterYSize out"
  shows "\<exists>out'. line_loop red_band nir_band b6_band bqa_band rows out = Inr out' \<and>
           RasterXSize out' = RasterXSize out \<and> RasterYSize out' = RasterYSize out \<and>
           GeoTransform out' = GeoTransform out \<and> Projection out' = Projection out \<and>
           (\<forall>l c. samples out' l c =
              (if l \<in> set rows \<and> c < XSize red_band
               then spec_index_value (sample bqa_band l c) (sample b6_band l c)
                      (sample nir_band l c) (sample red_band l c)
               else samples out l c))"
  using assms
proof (induction rows arbitrary: out)
  case Nil
  then show ?case by simp
next
  case (Cons line rest)
  let ?row = "map (\<lambda>i. spec_index_value (sample bqa_band line i) (sample b6_band line i)
                          (sample nir_band line i) (sample red_band line i))
                [0..<XSize red_band]"
  let ?out = "WriteRaster out line (XSize red_band) ?row"
  from Cons.prems have line: "line < YSize red_band" "line < YSize nir_band"
    "line < YSize b6_band" "line < YSize bqa_band" "line < RasterYSize out"
    by simp_all
  have pixels: "pixel_loop (map (sample red_band line) [0..<XSize red_band])
                   (map (sample nir_band line) [0..<XSize nir_band])
                   (map (sample b6_band line) [0..<XSize b6_band])
                   (map (sample bqa_band line) [0..<XSize bqa_band])
                   [0..<XSize red_band] [] = Inr ?row"
    using Cons.prems(1-3) by (subst pixel_loop_in_range) auto
  have step: "line_loop red_band nir_band b6_band bqa_band (line # rest) out =
                line_loop red_band nir_band b6_band bqa_band rest ?out"
    using line pixels by (simp add: read_scanline)
  have "\<exists>out'. line_loop red_band nir_band b6_band bqa_band rest ?out = Inr out' \<and>
           RasterXSize out' = RasterXSize ?out \<and> RasterYSize out' = RasterYSize ?out \<and>
           GeoTransform out' = GeoTransform ?out \<and> Projection out' = Projection ?out \<and>
           (\<forall>l c. samples out' l c =
              (if l \<in> set rest \<and> c < XSize red_band
               then spec_index_value (sample bqa_band l c) (sample b6_band l c)
                      (sample nir_band l c) (sample red_band l c)
               else samples ?out l c))"
    using Cons.prems by (intro Cons.IH) simp_all
  then obtain out' where out':
    "line_loop red_band nir_band b6_band bqa_band rest ?out = Inr out'"
    "RasterXSize out' = RasterXSize out" "RasterYSize out' = RasterYSize out"
    "GeoTransform out' = GeoTransform out" "Projection out' = Projection out"
    "\<And>l c. samples out' l c =
              (if l \<in> set rest \<and> c < XSize red_band
               then spec_index_value (sample bqa_band l c) (sample b6_band l c)
                      (sample nir_band l c) (sample red_band l c)
               else samples ?out l c)"
    by auto
  have written: "\<And>l c. samples ?out l c =
      (if l = line \<and> c < XSize red_band then ?row ! c else samples out l c)"
    using line(5) Cons.prems(4) by (subst WriteRaster_samples) simp_all
  have "\<forall>l c. samples out' l c =
              (if l \<in> set (line # rest) \<and> c < XSize red_band
               then spec_index_value (sample bqa_band l c) (sample b6_band l c)
                      (sample nir_band l c) (sample red_band l c)
               else samples out l c)"
    by (simp add: out'(6) written)
  with step out'(1-5) show ?case by simp
qed

lemma make_ndvi_opened:
  assumes toa: "make_ref_toa reflectanceToa self s0 = Inr s"
    and opened: "gdal_Open s (b4_toa self) = Some d4" "gdal_Open s (b5_toa self) = Some d5"
      "gdal_Open s (b6_toa self) = Some d6" "gdal_Open s (bqa self) = Some dqa"
    and wide: "RasterXSize d4 \<le> RasterXSize d5" "RasterXSize d4 \<le> RasterXSize d6"
      "RasterXSize d4 \<le> RasterXSize dqa"
    and high: "RasterYSize d4 \<le> RasterYSize d5" "RasterYSize d4 \<le> RasterYSize d6"
      "RasterYSize d4 \<le> RasterYSize dqa"
  shows "\<exists>out. make_ndvi reflectanceToa self s0 =
             Inr (print (''NDVI Created in '' @ ndvi self)
                    (s\<lparr>files := (files s)(ndvi self \<mapsto> Raster out)\<rparr>)) \<and>
           RasterXSize out = RasterXSize d4 \<and> RasterYSize out = RasterYSize d4 \<and>
           GeoTransform out = GeoTransform d4 \<and> Projection out = Projection d4 \<and>
           (\<forall>l c. samples out l c =
              (if l < RasterYSize d4 \<and> c < RasterXSize d4
               then spec_index_value (samples dqa l c) (samples d6 l c) (samples d5 l c)
                      (samples d4 l c)
               else 0))"
proof -
  let ?out0 = "Create (RasterXSize d4) (RasterYSize d4) (GeoTransform d4) (Projection d4)"
  have "\<exists>out'. line_loop (GetRasterBand d4) (GetRasterBand d5) (GetRasterBand d6)
                  (GetRasterBand dqa) [0..<YSize (GetRasterBand d4)] ?out0 = Inr out' \<and>
           RasterXSize out' = RasterXSize ?out0 \<and> RasterYSize out' = RasterYSize ?out0 \<and>
           GeoTransform out' = GeoTransform ?out0 \<and> Projection out' = Projection ?out0 \<and>
           (\<forall>l c. samples out' l c =
              (if l \<in> set [0..<YSize (GetRasterBand d4)] \<and> c < XSize (GetRasterBand d4)
               then spec_index_value (sample (GetRasterBand dqa) l c)
                      (sample (GetRasterBand d6) l c) (sample (GetRasterBand d5) l c)
                      (sample (GetRasterBand d4) l c)
               else samples ?out0 l c))"
    using wide high by (intro line_loop_in_range) (simp_all add: GetRasterBand_def Create_def)
  then obtain out where out:
    "line_loop (GetRasterBand d4) (GetRasterBand d5) (GetRasterBand d6)
       (GetRasterBand dqa) [0..<YSize (GetRasterBand d4)] ?out0 = Inr out"
    "RasterXSize out = RasterXSize d4" "RasterYSize out = RasterYSize d4"
    "GeoTransform out = GeoTransform d4" "Projection out = Projection d4"
    "\<And>l c. samples out l c =
              (if l < RasterYSize d4 \<and> c < RasterXSize d4
               then spec_index_value (samples dqa l c) (samples d6 l c) (samples d5 l c)
                      (samples d4 l c)
               else 0)"
    by (auto simp: GetRasterBand_def Create_def)
  have "make_ndvi reflectanceToa self s0 =
          Inr (print (''NDVI Created in '' @ ndvi self)
                 (s\<lparr>files := (files s)(ndvi self \<mapsto> Raster out)\<rparr>))"
    using toa opened out(1) by (simp add: make_ndvi_def Let_def)
  with out(2-6) show ?thesis by blast
qed

lemma gdal_Open_written:
  "gdal_Open (print msg (s\<lparr>files := (files s)(p \<mapsto> Raster out)\<rparr>)) p = Some out"
  by (simp add: gdal_Open_def print_def)

lemma spec_index_value_bounded:
  assumes "q \<in> set bqa_values \<or> c < 0.1 \<or> a + b = 0 \<or> (0 \<le> a \<and> 0 \<le> b)"
  shows "- 1 \<le> spec_index_value q c a b \<and> spec_index_value q c a b \<le> 1"
proof (cases "q \<in> set bqa_values \<or> c < 0.1 \<or> a + b = 0")
  case True
  then show ?thesis by (auto simp: spec_index_value_def)
next
  case False
  with assms have nonneg: "0 \<le> a" "0 \<le> b" and pos: "0 < a + b" by auto
  from False have "spec_index_value q c a b = (a - b) / (a + b)"
    by (simp add: spec_index_value_def)
  moreover have "- 1 \<le> (a - b) / (a + b)"
    using pos nonneg by (simp add: pos_le_divide_eq)
  moreover have "(a - b) / (a + b) \<le> 1"
    using pos nonneg by (simp add: pos_divide_le_eq)
  ultimately show ?thesis by simp
qed

text \<open>
  Claim C1. For every pixel of the output of \<open>make_ndvi\<close> the value is decided in this
  order: 0 when the quality code is one of \<open>bqa_values\<close>; otherwise 0 when the B6 value
  is below 0.1; otherwise, with numerator B5 - B4 and denominator B5 + B4, 0 when the
  denominator is exactly 0 and numerator / denominator in every other case. The four
  datasets open, and the other three bands cover the grid of B4.
\<close>

theorem make_ndvi_pixel_rule:
  assumes "make_ref_toa reflectanceToa self s0 = Inr s"
    and "gdal_Open s (b4_toa self) = Some d4" "gdal_Open s (b5_toa self) = Some d5"
      "gdal_Open s (b6_toa self) = Some d6" "gdal_Open s (bqa self) = Some dqa"
    and "RasterXSize d4 \<le> RasterXSize d5" "RasterXSize d4 \<le> RasterXSize d6"
      "RasterXSize d4 \<le> RasterXSize dqa"
    and "RasterYSize d4 \<le> RasterYSize d5" "RasterYSize d4 \<le> RasterYSize d6"
      "RasterYSize d4 \<le> RasterYSize dqa"
    and "l < RasterYSize d4" "c < RasterXSize d4"
  shows "\<exists>s' out. make_ndvi reflectanceToa self s0 = Inr s' \<and>
           gdal_Open s' (ndvi self) = Some out \<and>
           samples out l c =
             (if samples dqa l c \<in> set bqa_values then 0
              else if samples d6 l c < 0.1 then 0
              else if samples d5 l c + samples d4 l c = 0 then 0
              else (samples d5 l c - samples d4 l c) / (samples d5 l c + samples d4 l c))"
proof -
  from make_ndvi_opened [OF assms(1-11)] obtain out where out:
    "make_ndvi reflectanceToa self s0 =
       Inr (print (''NDVI Created in '' @ ndvi self)
              (s\<lparr>files := (files s)(ndvi self \<mapsto> Raster out)\<rparr>))"
    "\<And>l c. samples out l c =
              (if l < RasterYSize d4 \<and> c < RasterXSize d4
               then spec_index_value (samples dqa l c) (samples d6 l c) (samples d5 l c)
                      (samples d4 l c)
               else 0)"
    by blast
  have "samples out l c =
          spec_index_value (samples dqa l c) (samples d6 l c) (samples d5 l c) (samples d4 l c)"
    using assms(12,13) by (simp add: out(2))
  then show ?thesis
    using out(1) gdal_Open_written by (simp add: spec_index_value_def)
qed

text \<open>
  Claim C8. Every pixel of the output of \<open>make_ndvi\<close> at which a masking rule applies
  (quality code, B6 below 0.1, zero denominator) or both ratio bands are non-negative
  lies in the closed interval from -1 to 1, whatever the other pixels hold; so does
  every sample outside the grid of B4. When the condition holds at every pixel, every
  output sample lies in that interval.
\<close>

theorem make_ndvi_bounded:
  assumes "make_ref_toa reflectanceToa self s0 = Inr s"
    and "gdal_Open s (b4_toa self) = Some d4" "gdal_Open s (b5_toa self) = Some d5"
      "gdal_Open s (b6_toa self) = Some d6" "gdal_Open s (bqa self) = Some dqa"
    and "RasterXSize d4 \<le> RasterXSize d5" "RasterXSize d4 \<le> RasterXSize d6"
      "RasterXSize d4 \<le> RasterXSize dqa"
    and "RasterYSize d4 \<le> RasterYSize d5" "RasterYSize d4 \<le> RasterYSize d6"
      "RasterYSize d4 \<le> RasterYSize dqa"
  shows "\<exists>s' out. make_ndvi reflectanceToa self s0 = Inr s' \<and>
           gdal_Open s' (ndvi self) = Some out \<and>
           (\<forall>l c. (l < RasterYSize d4 \<and> c < RasterXSize d4 \<longrightarrow>
                      samples dqa l c \<in> set bqa_values \<or> samples d6 l c < 0.1
                      \<or> samples d5 l c + samples d4 l c = 0
                      \<or> (0 \<le> samples d5 l c \<and> 0 \<le> samples d4 l c)) \<longrightarrow>
                   - 1 \<le> samples out l c \<and> samples out l c \<le> 1)"
proof -
  from make_ndvi_opened [OF assms(1-11)] obtain out where out:
    "make_ndvi reflectanceToa self s0 =
       Inr (print (''NDVI Created in '' @ ndvi self)
              (s\<lparr>files := (files s)(ndvi self \<mapsto> Raster out)\<rparr>))"
    "\<And>l c. samples out l c =
              (if l < RasterYSize d4 \<and> c < RasterXSize d4
               then spec_index_value (samples dqa l c) (samples d6 l c) (samples d5 l c)
                      (samples d4 l c)
               else 0)"
    by blast
  have "- 1 \<le> samples out l c \<and> samples out l c \<le> 1"
    if pixel: "l < RasterYSize d4 \<and> c < RasterXSize d4 \<longrightarrow>
                 samples dqa l c \<in> set bqa_values \<or> samples d6 l c < 0.1
                 \<or> samples d5 l c + samples d4 l c = 0
                 \<or> (0 \<le> samples d5 l c \<and> 0 \<le> samples d4 l c)" for l c
  proof (cases "l < RasterYSize d4 \<and> c < RasterXSize d4")
    case True
    with pixel have "samples dqa l c \<in> set bqa_values \<or> samples d6 l c < 0.1
        \<or> samples d5 l c + samples d4 l c = 0
        \<or> (0 \<le> samples d5 l c \<and> 0 \<le> samples d4 l c)"
      by blast
    from spec_index_value_bounded [OF this] True show ?thesis by (simp add: out(2))
  next
    case False
    then show ?thesis by (auto simp: out(2))
  qed
  then show ?thesis
    using out(1) gdal_Open_written by auto
qed

text \<open>
  Claim C5, amended. \<open>make_ndvi\<close> compares no grid dimensions and raises no
  grid-mismatch error of its own. Whenever bands 5, 6 and the quality band are each at
  least as wide and as high as band 4, in particular when all four share the same grid
  dimensions, the call succeeds, and the output raster has the width, height,
  geotransform and projection of band 4.
\<close>

theorem make_ndvi_inherits:
  assumes "make_ref_toa reflectanceToa self s0 = Inr s"
    and "gdal_Open s (b4_toa self) = Some d4" "gdal_Open s (b5_toa self) = Some d5"
      "gdal_Open s (b6_toa self) = Some d6" "gdal_Open s (bqa self) = Some dqa"
    and "RasterXSize d4 \<le> RasterXSize d5" "RasterXSize d4 \<le> RasterXSize d6"
      "RasterXSize d4 \<le> RasterXSize dqa"
    and "RasterYSize d4 \<le> RasterYSize d5" "RasterYSize d4 \<le> RasterYSize d6"
      "RasterYSize d4 \<le> RasterYSize dqa"
  shows "\<exists>s' out. make_ndvi reflectanceToa self s0 = Inr s' \<and>
           gdal_Open s' (ndvi self) = Some out \<and>
           RasterXSize out = RasterXSize d4 \<and> RasterYSize out = RasterYSize d4 \<and>
           GeoTransform out = GeoTransform d4 \<and> Projection out = Projection d4"
proof -
  from make_ndvi_opened [OF assms] obtain out where
    "make_ndvi reflectanceToa self s0 =
       Inr (print (''NDVI Created in '' @ ndvi self)
              (s\<lparr>files := (files s)(ndvi self \<mapsto> Raster out)\<rparr>))"
    "RasterXSize out = RasterXSize d4" "RasterYSize out = RasterYSize d4"
    "GeoTransform out = GeoTransform d4" "Projection out = Projection d4"
    by blast
  then show ?thesis
    using gdal_Open_written by auto
qed

text \<open>
  Claim C10. When, after the calibration step has returned, any of the four input
  rasters does not open, \<open>make_ndvi\<close> returns normally: it prints that some dataset
  could not be opened and leaves the file system as the calibration step left it, so no
  output raster is created or written.
\<close>

theorem make_ndvi_unopened:
  assumes "make_ref_toa reflectanceToa self s0 = Inr s"
    and "gdal_Open s (b4_toa self) = None \<or> gdal_Open s (b5_toa self) = None
         \<or> gdal_Open s (b6_toa self) = None \<or> gdal_Open s (bqa self) = None"
  shows "make_ndvi reflectanceToa self s0 =
           Inr (s\<lparr>stdout := stdout s @ [''Some of the datasets could not be opened'']\<rparr>)"
  using assms
  by (auto simp: make_ndvi_def print_def split: option.splits)

lemma ex_scene_toa: "make_ref_toa ex_calibration ex_self ex_scene = Inr ex_scene"
  by (simp add: make_ref_toa_def ex_calibration_def isfile_def ex_scene_def)

lemma ex_scene_open:
  "gdal_Open ex_scene (b4_toa ex_self) = Some ex_red"
  "gdal_Open ex_scene (b5_toa ex_self) = Some ex_nir_wide"
  "gdal_Open ex_scene (b6_toa ex_self) = Some ex_swir"
  "gdal_Open ex_scene (bqa ex_self) = Some ex_quality"
  by (simp_all add: gdal_Open_def ex_scene_def ex_self_def)

lemma ex_scene_sizes:
  "RasterXSize ex_red = 2" "RasterYSize ex_red = 1"
  "RasterXSize ex_nir_wide = 3" "RasterYSize ex_nir_wide = 1"
  "RasterXSize ex_swir = 2" "RasterYSize ex_swir = 1"
  "RasterXSize ex_quality = 2" "RasterYSize ex_quality = 1"
  by (simp_all add: ex_red_def ex_nir_wide_def ex_swir_def ex_quality_def)

lemma ex_scene_dims:
  "RasterXSize ex_red \<le> RasterXSize ex_nir_wide" "RasterXSize ex_red \<le> RasterXSize ex_swir"
  "RasterXSize ex_red \<le> RasterXSize ex_quality"
  "RasterYSize ex_red \<le> RasterYSize ex_nir_wide" "RasterYSize ex_red \<le> RasterYSize ex_swir"
  "RasterYSize ex_red \<le> RasterYSize ex_quality"
  by (simp_all add: ex_scene_sizes)

lemma ex_scene_samples:
  "samples ex_red l c = 0.1" "samples ex_nir_wide l c = 0.5" "samples ex_swir l c = 0.3"
  "samples ex_quality l c = (if c = 1 then 61440 else 20480)"
  by (simp_all add: ex_red_def ex_nir_wide_def ex_swir_def ex_quality_def)

theorem make_ndvi_pixel_rule_witness:
  "(\<exists>s' out. make_ndvi ex_calibration ex_self ex_scene = Inr s' \<and>
      gdal_Open s' (ndvi ex_self) = Some out \<and> samples out 0 0 = 2 / 3) \<and>
   (\<exists>s' out. make_ndvi ex_calibration ex_self ex_scene = Inr s' \<and>
      gdal_Open s' (ndvi ex_self) = Some out \<and> samples out 0 1 = 0)"
  using make_ndvi_pixel_rule [OF ex_scene_toa ex_scene_open, of 0 0]
    make_ndvi_pixel_rule [OF ex_scene_toa ex_scene_open, of 0 1]
  by (simp add: ex_scene_sizes ex_scene_samples bqa_values_def)

lemma ex_negative_toa:
  "make_ref_toa ex_calibration ex_self ex_scene_negative = Inr ex_scene_negative"
  by (simp add: make_ref_toa_def ex_calibration_def isfile_def ex_scene_negative_def)

lemma ex_negative_open:
  "gdal_Open ex_scene_negative (b4_toa ex_self) = Some ex_red_negative"
  "gdal_Open ex_scene_negative (b5_toa ex_self) = Some ex_nir_wide"
  "gdal_Open ex_scene_negative (b6_toa ex_self) = Some ex_swir"
  "gdal_Open ex_scene_negative (bqa ex_self) = Some ex_quality_clear"
  by (simp_all add: gdal_Open_def ex_scene_negative_def ex_self_def)

lemma ex_negative_dims:
  "RasterXSize ex_red_negative \<le> RasterXSize ex_nir_wide"
  "RasterXSize ex_red_negative \<le> RasterXSize ex_swir"
  "RasterXSize ex_red_negative \<le> RasterXSize ex_quality_clear"
  "RasterYSize ex_red_negative \<le> RasterYSize ex_nir_wide"
  "RasterYSize ex_red_negative \<le> RasterYSize ex_swir"
  "RasterYSize ex_red_negative \<le> RasterYSize ex_quality_clear"
  by (simp_all add: ex_red_negative_def ex_quality_clear_def ex_scene_sizes ex_red_def)

theorem make_ndvi_bounded_witness:
  "(\<exists>s' out. make_ndvi ex_calibration ex_self ex_scene = Inr s' \<and>
      gdal_Open s' (ndvi ex_self) = Some out \<and>
      (\<forall>l c. - 1 \<le> samples out l c \<and> samples out l c \<le> 1)) \<and>
   samples ex_red_negative 0 1 < 0 \<and>
   (\<exists>s' out. make_ndvi ex_calibration ex_self ex_scene_negative = Inr s' \<and>
      gdal_Open s' (ndvi ex_self) = Some out \<and>
      - 1 \<le> samples out 0 0 \<and> samples out 0 0 \<le> 1)"
proof -
  have whole: "\<exists>s' out. make_ndvi ex_calibration ex_self ex_scene = Inr s' \<and>
      gdal_Open s' (ndvi ex_self) = Some out \<and>
      (\<forall>l c. - 1 \<le> samples out l c \<and> samples out l c \<le> 1)"
    using make_ndvi_bounded [OF ex_scene_toa ex_scene_open ex_scene_dims]
    by (simp add: ex_scene_samples)
  have negative: "samples ex_red_negative 0 1 < 0"
    by (simp add: ex_red_negative_def)
  from make_ndvi_bounded [OF ex_negative_toa ex_negative_open ex_negative_dims]
  obtain s' out where run: "make_ndvi ex_calibration ex_self ex_scene_negative = Inr s'"
    "gdal_Open s' (ndvi ex_self) = Some out"
    and pixel: "\<And>l c. (l < RasterYSize ex_red_negative \<and> c < RasterXSize ex_red_negative \<longrightarrow>
                      samples ex_quality_clear l c \<in> set bqa_values \<or> samples ex_swir l c < 0.1
                      \<or> samples ex_nir_wide l c + samples ex_red_negative l c = 0
                      \<or> (0 \<le> samples ex_nir_wide l c \<and> 0 \<le> samples ex_red_negative l c)) \<Longrightarrow>
                   - 1 \<le> samples out l c \<and> samples out l c \<le> 1"
    by blast
  have "- 1 \<le> samples out 0 0 \<and> samples out 0 0 \<le> 1"
    by (rule pixel) (simp add: ex_red_negative_def ex_scene_samples)
  with run have "\<exists>s' out. make_ndvi ex_calibration ex_self ex_scene_negative = Inr s' \<and>
      gdal_Open s' (ndvi ex_self) = Some out \<and>
      - 1 \<le> samples out 0 0 \<and> samples out 0 0 \<le> 1"
    by blast
  with whole negative show ?thesis by blast
qed

text \<open>
  Claim C5, as stated, fails. Band 5 is three pixels wide and band 4 two, so the four
  bands do not share one grid, and \<open>make_ndvi\<close> returns normally.
\<close>

theorem make_ndvi_grid_counterexample:
  "gdal_Open ex_scene (b4_toa ex_self) = Some ex_red \<and>
   gdal_Open ex_scene (b5_toa ex_self) = Some ex_nir_wide \<and>
   RasterXSize ex_red = 2 \<and> RasterXSize ex_nir_wide = 3 \<and>
   \<not> isl (make_ndvi ex_calibration ex_self ex_scene)"
proof -
  have "\<exists>out. make_ndvi ex_calibration ex_self ex_scene =
          Inr (print (''NDVI Created in '' @ ndvi ex_self)
                 (ex_scene\<lparr>files := (files ex_scene)(ndvi ex_self \<mapsto> Raster out)\<rparr>))"
    using make_ndvi_opened [OF ex_scene_toa ex_scene_open ex_scene_dims]
    by blast
  then have "\<not> isl (make_ndvi ex_calibration ex_self ex_scene)"
    by auto
  then show ?thesis
    by (simp add: ex_scene_open ex_scene_sizes)
qed

theorem make_ndvi_inherits_witness:
  "\<exists>s' out. make_ndvi ex_calibration ex_self ex_scene = Inr s' \<and>
      gdal_Open s' (ndvi ex_self) = Some out \<and>
      RasterXSize out = 2 \<and> RasterYSize out = 1 \<and>
      GeoTransform out = (100, 30, 0, 200, 0, - 30) \<and> Projection out = ''EPSG:32622''"
  using make_ndvi_inherits [OF ex_scene_toa ex_scene_open]
  by (simp add: ex_scene_sizes) (simp add: ex_red_def)

lemma ex_bad_quality_toa:
  "make_ref_toa ex_calibration ex_self ex_scene_bad_quality = Inr ex_scene_bad_quality"
  by (simp add: make_ref_toa_def ex_calibration_def isfile_def ex_scene_bad_quality_def
      ex_scene_def ex_self_def)

lemma ex_bad_quality_open: "gdal_Open ex_scene_bad_quality (bqa ex_self) = None"
  by (simp add: gdal_Open_def ex_scene_bad_quality_def)

theorem make_ndvi_unopened_witness:
  "gdal_Open ex_scene_bad_quality (bqa ex_self) = None \<and>
   make_ndvi ex_calibration ex_self ex_scene_bad_quality =
     Inr (ex_scene_bad_quality
            \<lparr>stdout := stdout ex_scene_bad_quality
               @ [''Some of the datasets could not be opened'']\<rparr>)"
proof -
  have h: "gdal_Open ex_scene_bad_quality (b4_toa ex_self) = None
           \<or> gdal_Open ex_scene_bad_quality (b5_toa ex_self) = None
           \<or> gdal_Open ex_scene_bad_quality (b6_toa ex_self) = None
           \<or> gdal_Open ex_scene_bad_quality (bqa ex_self) = None"
    by (simp add: ex_bad_quality_open)
  show ?thesis
    using make_ndvi_unopened [OF ex_bad_quality_toa h] ex_bad_quality_open by simp
qed

end
